theory Spec2Isabelle
  imports Main
begin

section \<open>JavaScript strings and arrays as the plugin uses them\<close>

text \<open>
  A JavaScript string is a \<open>string\<close> (a list of characters). The plugin's paths, formats
  and file names are ASCII in every example of its documentation; one \<open>char\<close> stands for
  one UTF-16 code unit.
\<close>

text \<open>\<open>s.startsWith(p)\<close>.\<close>

fun startsWith :: "string \<Rightarrow> string \<Rightarrow> bool" where
  "startsWith s [] = True"
| "startsWith [] (p # ps) = False"
| "startsWith (c # cs) (p # ps) = (c = p \<and> startsWith cs ps)"

text \<open>\<open>s.endsWith(p)\<close>.\<close>

definition endsWith :: "string \<Rightarrow> string \<Rightarrow> bool" where
  "endsWith s p = startsWith (rev s) (rev p)"

text \<open>\<open>s.contains(p)\<close> (Obsidian's alias of \<open>includes\<close>): \<open>p\<close> occurs somewhere in \<open>s\<close>.\<close>

fun contains :: "string \<Rightarrow> string \<Rightarrow> bool" where
  "contains [] p = (p = [])"
| "contains (c # cs) p = (startsWith (c # cs) p \<or> contains cs p)"

text \<open>
  \<open>s.split(sep)\<close> for a one-character separator: the pieces between the separators, in
  order. The result is never empty: \<open>"".split("/")\<close> is \<open>[""]\<close>, and \<open>"a/".split("/")\<close> is
  \<open>["a", ""]\<close>.
\<close>

fun js_split :: "char \<Rightarrow> string \<Rightarrow> string list" where
  "js_split sep [] = [[]]"
| "js_split sep (c # cs) =
     (if c = sep then [] # js_split sep cs
      else (case js_split sep cs of
              [] \<Rightarrow> [[c]]
            | piece # pieces \<Rightarrow> (c # piece) # pieces))"

text \<open>
  \<open>xs.slice(-1)[0]\<close>: the last element, \<open>undefined\<close> (\<open>None\<close>) on an empty array;
  \<open>xs[i]\<close>: the element at \<open>i\<close>, \<open>undefined\<close> out of range; \<open>xs.slice(-2, -1)\<close>: the array
  holding the last element but one when there is one, the empty array otherwise.
\<close>

definition slice_last :: "'a list \<Rightarrow> 'a option" where
  "slice_last xs = (case rev xs of [] \<Rightarrow> None | x # _ \<Rightarrow> Some x)"

fun at_index :: "'a list \<Rightarrow> nat \<Rightarrow> 'a option" where
  "at_index [] i = None"
| "at_index (x # xs) 0 = Some x"
| "at_index (x # xs) (Suc i) = at_index xs i"

definition slice_m2_m1 :: "'a list \<Rightarrow> 'a list" where
  "slice_m2_m1 xs = butlast (drop (length xs - 2) xs)"

text \<open>
  Truthiness, as \<open>!x\<close> reads it: a string is falsy exactly when it is empty, and every
  object is truthy; an array is an object, so the empty array is truthy too.
\<close>

definition truthy_string :: "string \<Rightarrow> bool" where
  "truthy_string s = (s \<noteq> [])"

definition truthy_array :: "'a list \<Rightarrow> bool" where
  "truthy_array xs = True"

text \<open>A number in a template literal: the decimal digits, with a minus sign below zero.\<close>

function showNat :: "nat \<Rightarrow> string" where
  "showNat n =
     (if n < 10 then [char_of (48 + n)]
      else showNat (n div 10) @ [char_of (48 + n mod 10)])"
  by pat_completeness auto
termination
  by (relation "measure (\<lambda>n. n)") auto

declare showNat.simps [simp del]

definition showInt :: "int \<Rightarrow> string" where
  "showInt i = (if i < 0 then CHR ''-'' # showNat (nat (- i)) else showNat (nat i))"

section \<open>Dates\<close>

text \<open>
  A \<open>Date\<close>, read in local time through its getters. \<open>getMonth\<close> counts from 0 (January)
  to 11 (December), \<open>getDate\<close> is the day of the month, from 1.
\<close>

record jsdate =
  getFullYear :: int
  getMonth :: nat
  getDate :: nat
  getHours :: nat
  getMinutes :: nat

definition isLeapYear :: "int \<Rightarrow> bool" where
  "isLeapYear y = (y mod 400 = 0 \<or> (y mod 4 = 0 \<and> y mod 100 \<noteq> 0))"

definition daysInMonth :: "int \<Rightarrow> nat \<Rightarrow> nat" where
  "daysInMonth y m =
     (if m = 1 then (if isLeapYear y then 29 else 28)
      else if m = 3 \<or> m = 5 \<or> m = 8 \<or> m = 10 then 30
      else 31)"

text \<open>The dates a \<open>Date\<close> object can hold.\<close>

definition validDate :: "jsdate \<Rightarrow> bool" where
  "validDate d =
     (getMonth d < 12 \<and> 1 \<le> getDate d \<and> getDate d \<le> daysInMonth (getFullYear d) (getMonth d)
      \<and> getHours d < 24 \<and> getMinutes d < 60)"

text \<open>
  \<open>date.setDate(n)\<close> mutates the date; the model returns the new value. A day inside the
  month sets the field; day 0 is the last day of the month before (of December of the
  year before, in January). The plugin only ever passes \<open>getDate() - 1\<close>, which is at least 0
  and below the length of the month, so these are the cases written out; a day further
  below 0 counts on backwards from the end of the month before.
\<close>

definition setDate :: "jsdate \<Rightarrow> int \<Rightarrow> jsdate" where
  "setDate d n =
     (if 1 \<le> n then d\<lparr>getDate := nat n\<rparr>
      else if getMonth d = 0
        then d\<lparr>getFullYear := getFullYear d - 1, getMonth := 11, getDate := nat (31 + n)\<rparr>
      else d\<lparr>getMonth := getMonth d - 1,
              getDate := nat (int (daysInMonth (getFullYear d) (getMonth d - 1)) + n)\<rparr>)"

text \<open>
  The number of the day a date falls on, counted from 1 January 1970 (ECMAScript's
  \<open>DayFromYear\<close>, plus the days of the months before, plus the day of the month).
\<close>

definition dayFromYear :: "int \<Rightarrow> int" where
  "dayFromYear y =
     365 * (y - 1970) + (y - 1969) div 4 - (y - 1901) div 100 + (y - 1601) div 400"

definition daysBeforeMonth :: "int \<Rightarrow> nat \<Rightarrow> nat" where
  "daysBeforeMonth y m = sum_list (map (daysInMonth y) [0..<m])"

definition dayNumber :: "jsdate \<Rightarrow> int" where
  "dayNumber d =
     dayFromYear (getFullYear d) + int (daysBeforeMonth (getFullYear d) (getMonth d))
       + int (getDate d) - 1"

text \<open>
  What the date functions read from outside: the hour of the wall clock when they are
  called (\<open>dayjs().get('hour')\<close>), dayjs's formatter (\<open>dayjs(date).format(format)\<close>), its
  strict parser (\<open>dayjs(text, format, true)\<close>, \<open>None\<close> when the result is not valid) and the
  short month names of \<open>toLocaleString('en-GB', {month: 'short'})\<close>.
\<close>

record runtime =
  hourNow :: nat
  dayjsFormat :: "string \<Rightarrow> jsdate \<Rightarrow> string"
  dayjsParseStrict :: "string \<Rightarrow> string \<Rightarrow> jsdate option"
  monthShort :: "nat \<Rightarrow> string"

subsection \<open>utils.ts\<close>

definition formatDate :: "'a runtime_scheme \<Rightarrow> string \<Rightarrow> jsdate \<Rightarrow> string" where
  "formatDate rt format date = dayjsFormat rt format date"

text \<open>
  \<open>getDailyNoteName\<close> and \<open>getMonthDirPath\<close> mutate the date they are given; the model
  returns the string together with the date as the call leaves it.
\<close>

definition getDailyNoteName ::
  "'a runtime_scheme \<Rightarrow> int \<Rightarrow> string \<Rightarrow> jsdate \<Rightarrow> bool \<Rightarrow> string \<times> jsdate" where
  "getDailyNoteName rt assumeSameDayBeforeHour dateFormat date considerAssumeSameDayBeforeHour =
     (let date1 =
        (if int (hourNow rt) < assumeSameDayBeforeHour \<and> considerAssumeSameDayBeforeHour
         then setDate date (int (getDate date) - 1)
         else date)
      in (formatDate rt dateFormat date1, date1))"

definition getMonthDirPath ::
  "'a runtime_scheme \<Rightarrow> string \<Rightarrow> int \<Rightarrow> jsdate \<Rightarrow> bool \<Rightarrow> string \<times> jsdate" where
  "getMonthDirPath rt rootDir assumeSameDayBeforeHour date considerAssumeSameDayBeforeHour =
     (let date1 =
        (if int (hourNow rt) + 1 < assumeSameDayBeforeHour \<and> considerAssumeSameDayBeforeHour
         then setDate date (int (getDate date) - 1)
         else date);
          year = getFullYear date1;
          monthStr = monthShort rt (getMonth date1)
      in (rootDir @ ''/'' @ showInt year @ ''/'' @ monthStr, date1))"

text \<open>
  \<open>getDailyNotePath\<close> passes \<open>true\<close> to \<open>getDailyNoteName\<close> and leaves the flag of
  \<open>getMonthDirPath\<close> at its default, \<open>false\<close>; the second call receives the same \<open>Date\<close>
  object, as the first call left it.
\<close>

definition getDailyNotePath ::
  "'a runtime_scheme \<Rightarrow> string \<Rightarrow> int \<Rightarrow> string \<Rightarrow> jsdate \<Rightarrow> string \<times> jsdate" where
  "getDailyNotePath rt rootDir assumeSameDayBeforeHour dateFormat date =
     (let (noteName, date1) = getDailyNoteName rt assumeSameDayBeforeHour dateFormat date True;
          (dirPath, date2) = getMonthDirPath rt rootDir assumeSameDayBeforeHour date1 False
      in (dirPath @ ''/'' @ noteName @ ''.md'', date2))"

text \<open>
  \<open>checkValidDailyNotePath\<close>: the note name is the last segment of the path up to its
  first dot. \<open>monthDir\<close> is the array \<open>slice(-2, -1)\<close> returns, and the test on it is the
  truthiness of that array.
\<close>

definition checkValidDailyNotePath ::
  "'a runtime_scheme \<Rightarrow> string \<Rightarrow> string \<Rightarrow> jsdate option" where
  "checkValidDailyNotePath rt notePath dateFormat =
     (case slice_last (js_split CHR ''/'' notePath) of
        None \<Rightarrow> None
      | Some lastSegment \<Rightarrow>
          (case at_index (js_split CHR ''.'' lastSegment) 0 of
             None \<Rightarrow> None
           | Some noteName \<Rightarrow>
               if \<not> truthy_string noteName then None
               else (case dayjsParseStrict rt noteName dateFormat of
                       None \<Rightarrow> None
                     | Some date \<Rightarrow>
                         (let monthDir = slice_m2_m1 (js_split CHR ''/'' notePath)
                          in if \<not> truthy_array monthDir then None else Some date))))"

section \<open>The vault, the editor and the host application\<close>

text \<open>
  A vault maps a path to the entry stored there: a file with its bytes, or a folder.
  \<open>getAbstractFileByPath\<close> is the lookup; \<open>getFiles\<close> lists the paths of the files.
\<close>

datatype entry = TFile "nat list" | TFolder

type_synonym vault = "(string \<times> entry) list"

definition getAbstractFileByPath :: "vault \<Rightarrow> string \<Rightarrow> entry option" where
  "getAbstractFileByPath v p = map_of v p"

fun getFiles :: "vault \<Rightarrow> string list" where
  "getFiles [] = []"
| "getFiles ((p, TFile bytes) # v) = p # getFiles v"
| "getFiles ((p, TFolder) # v) = getFiles v"

text \<open>
  The editor's text around its selection; \<open>replaceSelection\<close> puts the text in place of
  the selection and leaves the cursor behind it.
\<close>

record editor =
  textBefore :: string
  selectedText :: string
  textAfter :: string

definition replaceSelection :: "editor \<Rightarrow> string \<Rightarrow> editor" where
  "replaceSelection ed t = ed\<lparr>textBefore := textBefore ed @ t, selectedText := []\<rparr>"

text \<open>
  A \<open>Notice\<close> is its message and the duration passed to the constructor: \<open>None\<close> when
  the call gives none (the notice goes away by itself), \<open>Some 0\<close> for a notice that stays
  until it is dismissed.
\<close>

type_synonym notice = "string \<times> nat option"

text \<open>A dropped or pasted \<open>File\<close>: its name, its MIME type and its bytes.\<close>

record jsfile =
  file_name :: string
  file_type :: string
  file_bytes :: "nat list"

text \<open>
  The file a view shows (\<open>markdownView.file\<close>): its path, its base name and the path of
  its parent folder (\<open>None\<close> when it has no parent).
\<close>

record tfile =
  tfile_path :: string
  tfile_basename :: string
  tfile_parent :: "string option"

record markdownView =
  view_file :: "tfile option"

text \<open>The settings the file handling reads.\<close>

record settings =
  fileHandlingScenario :: string
  dateFormat :: string
  imageSubDir :: string
  otherFilesSubDir :: string
  maxImageSizeKB :: int
  preserveExifData :: bool
  resizeWidth :: int

text \<open>
  \<open>handleSingleFile\<close> starts a read (\<open>reader.readAsDataURL(file)\<close>) and returns; the read
  ends later, and only then does the reader's \<open>onloadend\<close> callback run. A started read
  is the values its callback closes over.
\<close>

record readTask =
  task_filePath :: string
  task_file :: jsfile
  task_resizeWidth :: int

text \<open>
  Everything the file handling changes: the vault, the editor, the notices shown, the
  reads started and not yet ended, and whether the event's default was prevented.
\<close>

record world =
  vault :: vault
  editor :: editor
  notices :: "notice list"
  pendingReads :: "readTask list"
  defaultPrevented :: bool

text \<open>
  What the file handling calls and the sources do not hold, next to the date runtime:
  Obsidian's \<open>normalizePath\<close>, the image compression library, \<open>createDirsIfNotExists\<close> of
  \<open>./fileSystem\<close>, the \<open>FileReader\<close> (its \<open>result\<close> when the read ends, \<open>None\<close> for
  \<open>null\<close>), \<open>window.atob\<close>, and the vault's \<open>createBinary\<close> (\<open>None\<close> when it throws).
\<close>

record host = runtime +
  normalizePath :: "string \<Rightarrow> string"
  imageCompression :: "jsfile \<Rightarrow> int \<Rightarrow> bool \<Rightarrow> jsfile"
  createDirsIfNotExists :: "vault \<Rightarrow> string \<Rightarrow> vault"
  readAsDataURL :: "jsfile \<Rightarrow> string option"
  atob :: "string \<Rightarrow> string"
  createBinary :: "vault \<Rightarrow> string \<Rightarrow> nat list \<Rightarrow> vault option"

definition notify :: "world \<Rightarrow> string \<Rightarrow> nat option \<Rightarrow> world" where
  "notify st message duration = st\<lparr>notices := notices st @ [(message, duration)]\<rparr>"

definition quoted :: "string \<Rightarrow> string" where
  "quoted s = CHR 0x22 # s @ [CHR 0x22]"

text \<open>
  \<open>s.split(sep)[0]\<close> and \<open>s.split(sep).slice(-1)[0]\<close> inside a template literal, which
  prints \<open>undefined\<close> as that word.
\<close>

definition firstPiece :: "char \<Rightarrow> string \<Rightarrow> string" where
  "firstPiece sep s = (case at_index (js_split sep s) 0 of None \<Rightarrow> ''undefined'' | Some p \<Rightarrow> p)"

definition lastPiece :: "char \<Rightarrow> string \<Rightarrow> string" where
  "lastPiece sep s = (case slice_last (js_split sep s) of None \<Rightarrow> ''undefined'' | Some p \<Rightarrow> p)"

subsection \<open>The file handling\<close>

definition base64ToArrayBuffer :: "'a host_scheme \<Rightarrow> string \<Rightarrow> nat list" where
  "base64ToArrayBuffer h base64 = map (\<lambda>c. of_char c mod 256) (atob h base64)"

definition countFilesWithSamePrefix :: "vault \<Rightarrow> string \<Rightarrow> string \<Rightarrow> nat" where
  "countFilesWithSamePrefix v dirPath prefix =
     foldl (\<lambda>count p.
              if startsWith p dirPath \<and> contains p prefix \<and> \<not> endsWith p ''.md''
              then count + 1 else count)
       0 (filter (\<lambda>p. startsWith p dirPath) (getFiles v))"

definition limitImageFileSize ::
  "'a host_scheme \<Rightarrow> jsfile \<Rightarrow> int \<Rightarrow> bool \<Rightarrow> world \<Rightarrow> jsfile \<times> world" where
  "limitImageFileSize h file sizeKB preserve st =
     (if sizeKB = - 1 then (file, st)
      else (imageCompression h file sizeKB preserve,
            notify st (''Compressing image '' @ quoted (file_name file) @ '' to ''
                       @ showInt sizeKB @ ''KB'') None))"

definition shouldHandleAccordingToConfig ::
  "'a host_scheme \<Rightarrow> settings \<Rightarrow> markdownView option \<Rightarrow> bool" where
  "shouldHandleAccordingToConfig h cfg view =
     (case view of
        None \<Rightarrow> False
      | Some mv \<Rightarrow>
          (case view_file mv of
             None \<Rightarrow> False
           | Some vf \<Rightarrow>
               if fileHandlingScenario cfg = ''disabled'' then False
               else (let date = checkValidDailyNotePath h (tfile_path vf) (dateFormat cfg)
                     in if fileHandlingScenario cfg = ''daily notes only'' \<and> date = None
                        then False else True)))"

text \<open>
  The three values \<open>createAndInsertWithFileReader\<close> computes before it touches the vault:
  \<open>reader.result?.toString().split(",")[1]\<close>, the text of the link with its optional
  width, and the path with one leading slash taken off
  (\<open>filePath[0] === '/' ? filePath.substring(1) : filePath\<close>).
\<close>

definition readerBase64 :: "string option \<Rightarrow> string option" where
  "readerBase64 readerResult =
     (case readerResult of
        None \<Rightarrow> None
      | Some r \<Rightarrow> at_index (js_split CHR '','' r) 1)"

definition fileLinkText :: "string \<Rightarrow> int \<Rightarrow> string" where
  "fileLinkText filePath width =
     (let fileLinkResizeString = (if width \<noteq> - 1 then ''|'' @ showInt width else [])
      in ''![['' @ filePath @ fileLinkResizeString @ '']]'')"

definition stripLeadingSlash :: "string \<Rightarrow> string" where
  "stripLeadingSlash filePath =
     (case filePath of
        [] \<Rightarrow> filePath
      | c # rest \<Rightarrow> if c = CHR ''/'' then rest else filePath)"

definition createAndInsertWithFileReader ::
  "'a host_scheme \<Rightarrow> string option \<Rightarrow> string \<Rightarrow> string \<Rightarrow> bool \<Rightarrow> int \<Rightarrow> world
     \<Rightarrow> bool \<times> world" where
  "createAndInsertWithFileReader h readerResult filePath fileName returnTrueIfExists width st =
     (let base64 = readerBase64 readerResult;
          emptyPayload = (False,
                          notify st (''Failed to create file '' @ quoted filePath
                                     @ '', base64 is empty.'') None)
      in case base64 of
           None \<Rightarrow> emptyPayload
         | Some b \<Rightarrow>
             if \<not> truthy_string b then emptyPayload
             else
               (let fileLink = fileLinkText filePath width;
                    filePath1 = stripLeadingSlash filePath
                in if getAbstractFileByPath (vault st) filePath1 \<noteq> None \<and> returnTrueIfExists
                   then (True,
                         (notify st (''File '' @ quoted filePath1
                                     @ '' already exists. Inserting link to the existed one.'') None)
                           \<lparr>editor := replaceSelection (editor st) fileLink\<rparr>)
                   else
                     (case createBinary h (vault st) filePath1 (base64ToArrayBuffer h b) of
                        Some v1 \<Rightarrow>
                          (True, st\<lparr>vault := v1,
                                    editor := replaceSelection (editor st) fileLink\<rparr>)
                      | None \<Rightarrow>
                          (False,
                           (notify st (''Failed to create file '' @ quoted fileName @ ''.'')
                                   (Some 0))
                             \<lparr>editor := replaceSelection (editor st) fileLink\<rparr>))))"

text \<open>
  \<open>handleSingleFile\<close> computes the target path, makes the folder, starts the read and
  returns \<open>handleSuccess\<close>, which is still \<open>true\<close> then: the callback that assigns it runs
  when the read ends.
\<close>

definition handleSingleFile ::
  "'a host_scheme \<Rightarrow> settings \<Rightarrow> jsfile \<Rightarrow> markdownView option \<Rightarrow> world \<Rightarrow> bool \<times> world" where
  "handleSingleFile h cfg file view st =
     (case view of
        None \<Rightarrow> (False, st)
      | Some mv \<Rightarrow>
          (case view_file mv of
             None \<Rightarrow> (False, st)
           | Some vf \<Rightarrow>
               (let parentPath = (case tfile_parent vf of None \<Rightarrow> [] | Some p \<Rightarrow> p);
                    viewParentPath = (if parentPath = ''/'' then [] else parentPath);
                    viewFileName = tfile_basename vf;
                    (file1, st1, fileSaveSubDir, filePrefix, fileSuffix) =
                      (if startsWith (file_type file) ''image''
                       then
                         (let (compressed, st1) =
                                limitImageFileSize h file (maxImageSizeKB cfg)
                                  (preserveExifData cfg) st;
                              countPrefix = countFilesWithSamePrefix (vault st1) [] viewFileName
                          in (compressed, st1,
                              viewParentPath @ ''/'' @ imageSubDir cfg,
                              viewFileName @ ''-image'',
                              if countPrefix = 0 then [] else ''-'' @ showNat countPrefix))
                       else
                         (file, st,
                          viewParentPath @ ''/'' @ otherFilesSubDir cfg,
                          viewFileName @ ''-'' @ firstPiece CHR ''.'' (file_name file),
                          []));
                    saveDir = normalizePath h fileSaveSubDir;
                    ext = lastPiece CHR ''.'' (file_name file1);
                    fileName = filePrefix @ fileSuffix @ ''.'' @ ext;
                    filePath = normalizePath h (saveDir @ ''/'' @ fileName);
                    st2 = st1\<lparr>vault := createDirsIfNotExists h (vault st1) saveDir\<rparr>;
                    st3 = st2\<lparr>pendingReads := pendingReads st2 @
                               [\<lparr>task_filePath = filePath, task_file = file1,
                                 task_resizeWidth = resizeWidth cfg\<rparr>]\<rparr>
                in (True, st3))))"

text \<open>The callback \<open>reader.onloadend\<close> of a started read, run when the read has ended.\<close>

definition onloadend :: "'a host_scheme \<Rightarrow> readTask \<Rightarrow> world \<Rightarrow> bool \<times> world" where
  "onloadend h task st =
     createAndInsertWithFileReader h (readAsDataURL h (task_file task)) (task_filePath task)
       (file_name (task_file task)) True (task_resizeWidth task) st"

definition supportedType :: "string \<Rightarrow> bool" where
  "supportedType t =
     (startsWith t ''image'' \<or> t = ''application/zip'' \<or> t = ''application/pdf'')"

text \<open>The second loop of \<open>handleFiles\<close>: each file in turn, the result of each call dropped.\<close>

fun handleEach ::
  "'a host_scheme \<Rightarrow> settings \<Rightarrow> markdownView option \<Rightarrow> jsfile list \<Rightarrow> world \<Rightarrow> world" where
  "handleEach h cfg view [] st = st"
| "handleEach h cfg view (file # files) st =
     handleEach h cfg view files (snd (handleSingleFile h cfg file view st))"

text \<open>
  \<open>handleFiles\<close>; \<open>dataTransfer\<close> is \<open>None\<close> for \<open>null\<close>, its files otherwise. The first loop
  returns at the first file of an unsupported type.
\<close>

definition handleFiles ::
  "'a host_scheme \<Rightarrow> jsfile list option \<Rightarrow> settings \<Rightarrow> markdownView option \<Rightarrow> world \<Rightarrow> world"
  where
  "handleFiles h dataTransfer cfg view st =
     (case dataTransfer of
        None \<Rightarrow> st
      | Some files \<Rightarrow>
          if \<not> shouldHandleAccordingToConfig h cfg view then st
          else if length files = 0 then st
          else (case find (\<lambda>f. \<not> supportedType (file_type f)) files of
                  Some f \<Rightarrow>
                    notify st (''Only image, pdf, and zip files are supported. ''
                               @ ''Get '' @ file_type f @ '' instead.'') None
                | None \<Rightarrow> handleEach h cfg view files (st\<lparr>defaultPrevented := True\<rparr>)))"

text \<open>
  The reads that have been started end one after another; each runs its callback on the
  world as it is then.
\<close>

fun runReads :: "'a host_scheme \<Rightarrow> readTask list \<Rightarrow> world \<Rightarrow> world" where
  "runReads h [] st = st"
| "runReads h (task # tasks) st = runReads h tasks (snd (onloadend h task st))"

section \<open>A reference host\<close>

text \<open>
  The theorems below hold for every host. To run the plugin's functions on concrete
  inputs, this section gives one host, written after the documentation of the
  libraries: dayjs with the tokens \<open>YYYY\<close>, \<open>MM\<close> and \<open>DD\<close> (every other character of a
  format stands for itself), the English short month names, Obsidian's
  \<open>normalizePath\<close> on ASCII paths, base64, a vault whose \<open>createBinary\<close> throws when the
  path is taken, and a compression that returns the file as it is.
\<close>

definition padStart :: "nat \<Rightarrow> string \<Rightarrow> string" where
  "padStart n s = replicate (n - length s) CHR ''0'' @ s"

function dayjsFormatYMD :: "string \<Rightarrow> jsdate \<Rightarrow> string" where
  "dayjsFormatYMD f d =
     (if f = [] then []
      else if startsWith f ''YYYY''
        then padStart 4 (showInt (getFullYear d)) @ dayjsFormatYMD (drop 4 f) d
      else if startsWith f ''MM''
        then padStart 2 (showNat (getMonth d + 1)) @ dayjsFormatYMD (drop 2 f) d
      else if startsWith f ''DD''
        then padStart 2 (showNat (getDate d)) @ dayjsFormatYMD (drop 2 f) d
      else hd f # dayjsFormatYMD (tl f) d)"
  by pat_completeness auto
termination
  by (relation "measure (\<lambda>(f, d). length f)") auto

declare dayjsFormatYMD.simps [simp del]

definition isDigit :: "char \<Rightarrow> bool" where
  "isDigit c = (48 \<le> (of_char c :: nat) \<and> (of_char c :: nat) \<le> 57)"

definition readNat :: "string \<Rightarrow> nat" where
  "readNat s = foldl (\<lambda>n c. 10 * n + (of_char c - 48)) 0 s"

text \<open>
  The fields a text holds under a format: the digits at the place of each token. A
  character of the format that belongs to no token skips one character of the text.
\<close>

function readFields ::
  "string \<Rightarrow> string \<Rightarrow> nat option \<times> nat option \<times> nat option
     \<Rightarrow> (nat option \<times> nat option \<times> nat option) option" where
  "readFields f s ymd =
     (if f = [] then Some ymd
      else if startsWith f ''YYYY''
        then (if 4 \<le> length s \<and> list_all isDigit (take 4 s)
              then readFields (drop 4 f) (drop 4 s)
                     (Some (readNat (take 4 s)), fst (snd ymd), snd (snd ymd))
              else None)
      else if startsWith f ''MM''
        then (if 2 \<le> length s \<and> list_all isDigit (take 2 s)
              then readFields (drop 2 f) (drop 2 s)
                     (fst ymd, Some (readNat (take 2 s)), snd (snd ymd))
              else None)
      else if startsWith f ''DD''
        then (if 2 \<le> length s \<and> list_all isDigit (take 2 s)
              then readFields (drop 2 f) (drop 2 s)
                     (fst ymd, fst (snd ymd), Some (readNat (take 2 s)))
              else None)
      else readFields (tl f) (tl s) ymd)"
  by pat_completeness auto
termination
  by (relation "measure (\<lambda>(f, s, ymd). length f)") auto

declare readFields.simps [simp del]

text \<open>
  Strict parsing: the fields are read, the date they name must exist, and formatting it
  again must give the text back. A format that lacks one of the three tokens is outside
  this reference parser (dayjs fills such a field from the current date).
\<close>

definition dayjsParseStrictYMD :: "string \<Rightarrow> string \<Rightarrow> jsdate option" where
  "dayjsParseStrictYMD s f =
     (case readFields f s (None, None, None) of
        Some (Some y, Some m, Some d) \<Rightarrow>
          (let date = \<lparr>getFullYear = int y, getMonth = m - 1, getDate = d,
                       getHours = 0, getMinutes = 0\<rparr>
           in if 1 \<le> m \<and> validDate date \<and> dayjsFormatYMD f date = s then Some date else None)
      | _ \<Rightarrow> None)"

definition monthShortEn :: "nat \<Rightarrow> string" where
  "monthShortEn m =
     (case at_index [''Jan'', ''Feb'', ''Mar'', ''Apr'', ''May'', ''Jun'',
                     ''Jul'', ''Aug'', ''Sep'', ''Oct'', ''Nov'', ''Dec''] m of
        None \<Rightarrow> ''Invalid Date''
      | Some name \<Rightarrow> name)"

text \<open>
  \<open>normalizePath\<close>: runs of slashes and backslashes become one slash, the slashes at both
  ends go, and the empty path becomes \<open>/\<close>.
\<close>

definition isSlash :: "char \<Rightarrow> bool" where
  "isSlash c = (c = CHR ''/'' \<or> c = CHR 0x5C)"

fun collapseSlashes :: "string \<Rightarrow> string" where
  "collapseSlashes [] = []"
| "collapseSlashes [c] = [if isSlash c then CHR ''/'' else c]"
| "collapseSlashes (c # d # rest) =
     (if isSlash c then (if isSlash d then collapseSlashes (d # rest)
                         else CHR ''/'' # collapseSlashes (d # rest))
      else c # collapseSlashes (d # rest))"

definition obsidianNormalizePath :: "string \<Rightarrow> string" where
  "obsidianNormalizePath path =
     (let collapsed = collapseSlashes path;
          trimmed = rev (dropWhile (\<lambda>c. c = CHR ''/'')
                      (rev (dropWhile (\<lambda>c. c = CHR ''/'') collapsed)))
      in if trimmed = [] then ''/'' else trimmed)"

definition base64Alphabet :: string where
  "base64Alphabet = ''ABCDEFGHIJKLMNOPQRSTUVWXYZabcdefghijklmnopqrstuvwxyz0123456789+/''"

definition sextet :: "nat \<Rightarrow> char" where
  "sextet n = (case at_index base64Alphabet n of None \<Rightarrow> CHR ''='' | Some c \<Rightarrow> c)"

fun indexOf :: "char \<Rightarrow> string \<Rightarrow> nat" where
  "indexOf c [] = 0"
| "indexOf c (x # xs) = (if c = x then 0 else Suc (indexOf c xs))"

fun base64Encode :: "nat list \<Rightarrow> string" where
  "base64Encode (a # b # c # rest) =
     [sextet (a div 4), sextet ((a mod 4) * 16 + b div 16),
      sextet ((b mod 16) * 4 + c div 64), sextet (c mod 64)] @ base64Encode rest"
| "base64Encode [a, b] =
     [sextet (a div 4), sextet ((a mod 4) * 16 + b div 16), sextet ((b mod 16) * 4), CHR ''='']"
| "base64Encode [a] = [sextet (a div 4), sextet ((a mod 4) * 16), CHR ''='', CHR ''='']"
| "base64Encode [] = []"

fun decodeSextets :: "nat list \<Rightarrow> nat list" where
  "decodeSextets (a # b # c # d # rest) =
     [a * 4 + b div 16, (b mod 16) * 16 + c div 4, (c mod 4) * 64 + d] @ decodeSextets rest"
| "decodeSextets [a, b, c] = [a * 4 + b div 16, (b mod 16) * 16 + c div 4]"
| "decodeSextets [a, b] = [a * 4 + b div 16]"
| "decodeSextets [a] = []"
| "decodeSextets [] = []"

definition base64Decode :: "string \<Rightarrow> string" where
  "base64Decode s =
     map char_of
       (decodeSextets (map (\<lambda>c. indexOf c base64Alphabet) (filter (\<lambda>c. c \<noteq> CHR ''='') s)))"

definition dataURL :: "jsfile \<Rightarrow> string" where
  "dataURL f = ''data:'' @ file_type f @ '';base64,'' @ base64Encode (file_bytes f)"

definition vaultCreateBinary :: "vault \<Rightarrow> string \<Rightarrow> nat list \<Rightarrow> vault option" where
  "vaultCreateBinary v p bytes =
     (if map_of v p \<noteq> None then None else Some (v @ [(p, TFile bytes)]))"

text \<open>The folders \<open>a\<close>, \<open>a/b\<close>, \<open>a/b/c\<close> of the path \<open>a/b/c\<close>, each made when nothing is there.\<close>

fun folderPaths :: "string \<Rightarrow> string list \<Rightarrow> string list" where
  "folderPaths parent [] = []"
| "folderPaths parent (seg # segs) =
     (let here = (if parent = [] then seg else parent @ ''/'' @ seg)
      in here # folderPaths here segs)"

definition vaultCreateDirs :: "vault \<Rightarrow> string \<Rightarrow> vault" where
  "vaultCreateDirs v dirPath =
     foldl (\<lambda>v1 p. if map_of v1 p = None then v1 @ [(p, TFolder)] else v1) v
       (folderPaths [] (filter (\<lambda>seg. seg \<noteq> []) (js_split CHR ''/'' dirPath)))"

text \<open>The reference host at a given hour of the wall clock.\<close>

definition referenceHost :: "nat \<Rightarrow> host" where
  "referenceHost hour =
     \<lparr>hourNow = hour, dayjsFormat = dayjsFormatYMD, dayjsParseStrict = dayjsParseStrictYMD,
      monthShort = monthShortEn, normalizePath = obsidianNormalizePath,
      imageCompression = (\<lambda>f sizeKB preserve. f), createDirsIfNotExists = vaultCreateDirs,
      readAsDataURL = (\<lambda>f. Some (dataURL f)), atob = base64Decode,
      createBinary = vaultCreateBinary\<rparr>"

text \<open>
  A world with a given vault and nothing else: an empty editor, no notice, no read
  started. The settings and the view of the examples: every note is handled, images go
  to \<open>images\<close> and other files to \<open>files\<close> under the folder of the note, nothing is compressed
  and links carry no width; the view shows the daily note of 15 January 2024.
\<close>

definition freshWorld :: "vault \<Rightarrow> world" where
  "freshWorld v =
     \<lparr>vault = v, editor = \<lparr>textBefore = [], selectedText = [], textAfter = []\<rparr>,
      notices = [], pendingReads = [], defaultPrevented = False\<rparr>"

definition exampleSettings :: settings where
  "exampleSettings =
     \<lparr>fileHandlingScenario = ''all notes'', dateFormat = ''YYYY-MM-DD'',
      imageSubDir = ''images'', otherFilesSubDir = ''files'', maxImageSizeKB = - 1,
      preserveExifData = False, resizeWidth = - 1\<rparr>"

definition exampleView :: "markdownView option" where
  "exampleView =
     Some \<lparr>view_file = Some \<lparr>tfile_path = ''notes/2024/Jan/2024-01-15.md'',
                              tfile_basename = ''2024-01-15'',
                              tfile_parent = Some ''notes/2024/Jan''\<rparr>\<rparr>"

text \<open>The reference host with a vault that refuses every write.\<close>

definition readOnlyHost :: "nat \<Rightarrow> host" where
  "readOnlyHost hour = (referenceHost hour)\<lparr>createBinary := (\<lambda>v p bytes. None)\<rparr>"

section \<open>Properties of the calendar\<close>

text \<open>Stepping an integer by one moves its quotient exactly at the multiples.\<close>

lemma div_succ:
  fixes a k :: int
  assumes "0 < k"
  shows "(a + 1) div k = a div k + (if (a + 1) mod k = 0 then 1 else 0)"
proof -
  define q r where "q = a div k" and "r = a mod k"
  have a: "a = k * q + r" and r: "0 \<le> r" "r < k"
    using assms by (simp_all add: q_def r_def)
  show ?thesis
  proof (cases "r = k - 1")
    case True
    then have "a + 1 = k * (q + 1)" using a by (simp add: algebra_simps)
    then have "(a + 1) div k = q + 1" "(a + 1) mod k = 0" using assms by simp_all
    then show ?thesis by (simp add: q_def)
  next
    case False
    then have eq: "a + 1 = k * q + (r + 1)" and b: "0 \<le> r + 1" "r + 1 < k"
      using a r by simp_all
    have "(a + 1) div k = q" using eq b by (simp add: int_div_pos_eq)
    moreover have "(a + 1) mod k = r + 1" using eq b by (simp add: int_mod_pos_eq)
    ultimately show ?thesis using r by (simp add: q_def)
  qed
qed

lemma mod_shift: "(z + k * c) mod k = z mod k" for z k c :: int
  by simp

lemma div_step_4:
  "(y - 1969) div 4 = (y - 1970) div 4 + (if (y - 1) mod 4 = 0 then 1 else 0)" for y :: int
proof -
  have "(y - 1969) mod 4 = (y - 1) mod 4"
    using mod_shift [of "y - 1" 4 "- 492"] by simp
  then show ?thesis using div_succ [of 4 "y - 1970"] by simp
qed

lemma div_step_100:
  "(y - 1901) div 100 = (y - 1902) div 100 + (if (y - 1) mod 100 = 0 then 1 else 0)" for y :: int
proof -
  have "(y - 1901) mod 100 = (y - 1) mod 100"
    using mod_shift [of "y - 1" 100 "- 19"] by simp
  then show ?thesis using div_succ [of 100 "y - 1902"] by simp
qed

lemma div_step_400:
  "(y - 1601) div 400 = (y - 1602) div 400 + (if (y - 1) mod 400 = 0 then 1 else 0)" for y :: int
proof -
  have "(y - 1601) mod 400 = (y - 1) mod 400"
    using mod_shift [of "y - 1" 400 "- 4"] by simp
  then show ?thesis using div_succ [of 400 "y - 1602"] by simp
qed

lemma mod_400_100: "z mod 400 = 0 \<Longrightarrow> z mod 100 = 0" for z :: int
proof -
  assume "z mod 400 = 0"
  then have "400 dvd z" by (simp add: mod_eq_0_iff_dvd)
  moreover have "(100::int) dvd 400" by simp
  ultimately have "100 dvd z" by (rule dvd_trans [rotated])
  then show ?thesis by (simp add: mod_eq_0_iff_dvd)
qed

lemma mod_100_4: "z mod 100 = 0 \<Longrightarrow> z mod 4 = 0" for z :: int
proof -
  assume "z mod 100 = 0"
  then have "100 dvd z" by (simp add: mod_eq_0_iff_dvd)
  moreover have "(4::int) dvd 100" by simp
  ultimately have "4 dvd z" by (rule dvd_trans [rotated])
  then show ?thesis by (simp add: mod_eq_0_iff_dvd)
qed

lemma dayFromYear_step:
  "dayFromYear y = dayFromYear (y - 1) + (if isLeapYear (y - 1) then 366 else 365)"
proof -
  define A B C where "A = (y - 1970) div 4" and "B = (y - 1902) div 100"
    and "C = (y - 1602) div 400"
  define e4 e100 e400 :: int where "e4 = (if (y - 1) mod 4 = 0 then 1 else 0)"
    and "e100 = (if (y - 1) mod 100 = 0 then 1 else 0)"
    and "e400 = (if (y - 1) mod 400 = 0 then 1 else 0)"
  have a: "y - 1 - 1970 = y - 1971" "y - 1 - 1969 = y - 1970" "y - 1 - 1901 = y - 1902"
    "y - 1 - 1601 = y - 1602" by simp_all
  have this_year: "dayFromYear y = 365 * (y - 1970) + (A + e4) - (B + e100) + (C + e400)"
    by (simp only: dayFromYear_def div_step_4 [of y] div_step_100 [of y] div_step_400 [of y]
        A_def B_def C_def e4_def e100_def e400_def)
  have last_year: "dayFromYear (y - 1) = 365 * (y - 1971) + A - B + C"
    by (simp only: dayFromYear_def a A_def B_def C_def)
  have leap: "(if isLeapYear (y - 1) then 366 else 365) = 365 + e4 - e100 + e400"
    unfolding isLeapYear_def e4_def e100_def e400_def
    using mod_400_100 [of "y - 1"] mod_100_4 [of "y - 1"]
    by (cases "(y - 1) mod 400 = 0"; cases "(y - 1) mod 100 = 0"; cases "(y - 1) mod 4 = 0")
      simp_all
  show ?thesis
    unfolding this_year last_year leap by simp
qed

text \<open>
  \<open>setDate(getDate() - 1)\<close> on a date that exists is the day before: the day number
  falls by one, the result exists, and it is never the date itself.
\<close>

lemma daysBeforeMonth_Suc:
  "daysBeforeMonth y (Suc m) = daysBeforeMonth y m + daysInMonth y m"
  by (simp add: daysBeforeMonth_def)

lemma daysBeforeMonth_0: "daysBeforeMonth y 0 = 0"
  by (simp add: daysBeforeMonth_def)

lemma daysBeforeMonth_December:
  "int (daysBeforeMonth y 11) + 31 = (if isLeapYear y then 366 else 365)"
proof -
  have "[0..<11] = [0,1,2,3,4,5,6,7,8,9,10::nat]" by (simp add: upt_conv_Cons)
  then show ?thesis by (simp add: daysBeforeMonth_def daysInMonth_def)
qed

lemma daysInMonth_pos: "1 \<le> daysInMonth y m"
  by (simp add: daysInMonth_def)

lemma setDate_previous_day:
  assumes "validDate d"
  shows "dayNumber (setDate d (int (getDate d) - 1)) = dayNumber d - 1"
proof (cases "2 \<le> getDate d")
  case True
  then show ?thesis by (simp add: setDate_def dayNumber_def)
next
  case False
  with assms have one: "getDate d = 1" by (simp add: validDate_def)
  show ?thesis
  proof (cases "getMonth d")
    case 0
    have "dayNumber (setDate d (int (getDate d) - 1)) =
        dayFromYear (getFullYear d - 1) + int (daysBeforeMonth (getFullYear d - 1) 11) + 31 - 1"
      using one 0 by (simp add: setDate_def dayNumber_def)
    also have "\<dots> = dayFromYear (getFullYear d) - 1"
      unfolding dayFromYear_step [of "getFullYear d"]
      using daysBeforeMonth_December [of "getFullYear d - 1"] by linarith
    also have "\<dots> = dayNumber d - 1"
      using one 0 by (simp add: dayNumber_def daysBeforeMonth_0)
    finally show ?thesis .
  next
    case (Suc m)
    then show ?thesis
      using one by (simp add: setDate_def dayNumber_def daysBeforeMonth_Suc)
  qed
qed

lemma setDate_previous_valid:
  assumes "validDate d"
  shows "validDate (setDate d (int (getDate d) - 1))"
proof (cases "2 \<le> getDate d")
  case True
  with assms show ?thesis by (auto simp: validDate_def setDate_def)
next
  case False
  with assms have one: "getDate d = 1" by (simp add: validDate_def)
  show ?thesis
  proof (cases "getMonth d")
    case 0
    with one assms show ?thesis
      by (simp add: validDate_def setDate_def daysInMonth_def)
  next
    case (Suc m)
    with one assms daysInMonth_pos [of "getFullYear d" m] show ?thesis
      by (simp add: validDate_def setDate_def)
  qed
qed

lemma setDate_previous_changes: "setDate d (int (getDate d) - 1) \<noteq> d"
proof
  assume eq: "setDate d (int (getDate d) - 1) = d"
  show False
  proof (cases "1 \<le> int (getDate d) - 1")
    case True
    with eq have "getDate (d\<lparr>getDate := nat (int (getDate d) - 1)\<rparr>) = getDate d"
      by (simp add: setDate_def)
    with True show False by simp
  next
    case False
    show False
    proof (cases "getMonth d = 0")
      case True
      with False have "getFullYear (setDate d (int (getDate d) - 1)) = getFullYear d - 1"
        by (simp add: setDate_def)
      with eq show False by simp
    next
      case nz: False
      with False have "getMonth (setDate d (int (getDate d) - 1)) = getMonth d - 1"
        by (simp add: setDate_def)
      with eq nz show False by simp
    qed
  qed
qed

section \<open>Properties of utils.ts\<close>

lemma js_split_nonempty: "js_split sep s \<noteq> []"
  by (induction s) (auto split: list.splits)

lemma firstPiece_hd: "firstPiece sep s = hd (js_split sep s)"
  using js_split_nonempty [of sep s]
  by (cases "js_split sep s") (simp_all add: firstPiece_def)

lemma lastPiece_last: "lastPiece sep s = last (js_split sep s)"
proof -
  have "rev (js_split sep s) \<noteq> []" using js_split_nonempty [of sep s] by simp
  then obtain x xs where r: "rev (js_split sep s) = x # xs" by (cases "rev (js_split sep s)") auto
  then have "last (js_split sep s) = x"
    by (metis last_rev list.sel(1) rev_rev_ident hd_rev)
  with r show ?thesis by (simp add: lastPiece_def slice_last_def)
qed

text \<open>
  \<open>checkValidDailyNotePath\<close> is decided by the note name alone: the number of segments of
  the path never enters the result, since the test on \<open>monthDir\<close> is a test on an array.
\<close>

lemma checkValidDailyNotePath_by_name:
  "checkValidDailyNotePath rt notePath fmt =
     (if firstPiece CHR ''.'' (lastPiece CHR ''/'' notePath) = [] then None
      else dayjsParseStrict rt (firstPiece CHR ''.'' (lastPiece CHR ''/'' notePath)) fmt)"
proof -
  obtain seg where seg: "slice_last (js_split CHR ''/'' notePath) = Some seg"
    using js_split_nonempty [of "CHR ''/''" notePath]
    by (cases "rev (js_split CHR ''/'' notePath)") (auto simp: slice_last_def)
  obtain name where name: "at_index (js_split CHR ''.'' seg) 0 = Some name"
    using js_split_nonempty [of "CHR ''.''" seg]
    by (cases "js_split CHR ''.'' seg") auto
  show ?thesis
    using seg name
    by (simp add: checkValidDailyNotePath_def firstPiece_def lastPiece_def truthy_array_def
        truthy_string_def split: option.splits)
qed

text \<open>
  Claim C1 says that a date is returned only for a path of at least two segments, and
  that \<open>2024-01-15.md\<close> under the format \<open>YYYY-MM-DD\<close> gives no date. On the reference
  host the path has the single segment \<open>2024-01-15.md\<close>, and the function returns the date
  15 January 2024 for it, as it does for \<open>notes/2024-01-15.md\<close>.
\<close>

theorem checkValidDailyNotePath_single_segment:
  "js_split CHR ''/'' ''2024-01-15.md'' = [''2024-01-15.md'']
   \<and> checkValidDailyNotePath (referenceHost hour) ''2024-01-15.md'' ''YYYY-MM-DD''
       = Some \<lparr>getFullYear = 2024, getMonth = 0, getDate = 15, getHours = 0, getMinutes = 0\<rparr>
   \<and> checkValidDailyNotePath (referenceHost hour) ''notes/2024-01-15.md'' ''YYYY-MM-DD''
       = Some \<lparr>getFullYear = 2024, getMonth = 0, getDate = 15, getHours = 0, getMinutes = 0\<rparr>"
  by code_simp

lemma getDailyNoteName_date:
  "snd (getDailyNoteName rt h f d flag) =
     (if flag \<and> int (hourNow rt) < h then setDate d (int (getDate d) - 1) else d)"
  by (simp add: getDailyNoteName_def Let_def)

lemma getDailyNoteName_name:
  "fst (getDailyNoteName rt h f d flag) = dayjsFormat rt f (snd (getDailyNoteName rt h f d flag))"
  by (simp add: getDailyNoteName_def Let_def formatDate_def)

lemma getMonthDirPath_date:
  "snd (getMonthDirPath rt root h d flag) =
     (if flag \<and> int (hourNow rt) + 1 < h then setDate d (int (getDate d) - 1) else d)"
  by (simp add: getMonthDirPath_def Let_def)

lemma getMonthDirPath_dir:
  "fst (getMonthDirPath rt root h d flag) =
     root @ ''/'' @ showInt (getFullYear (snd (getMonthDirPath rt root h d flag))) @ ''/''
       @ monthShort rt (getMonth (snd (getMonthDirPath rt root h d flag)))"
  by (simp add: getMonthDirPath_def Let_def)

lemma getDailyNotePath_date:
  "snd (getDailyNotePath rt root h f d) =
     (if int (hourNow rt) < h then setDate d (int (getDate d) - 1) else d)"
  by (simp add: getDailyNotePath_def getDailyNoteName_def getMonthDirPath_def Let_def)

lemma getDailyNotePath_path:
  "fst (getDailyNotePath rt root h f d) =
     fst (getMonthDirPath rt root h (snd (getDailyNoteName rt h f d True)) False) @ ''/''
       @ fst (getDailyNoteName rt h f d True) @ ''.md''"
  by (simp add: getDailyNotePath_def split_beta Let_def)

lemma setDate_keeps_hours:
  "setDate (d\<lparr>getHours := k\<rparr>) n = (setDate d n)\<lparr>getHours := k\<rparr>"
  by (simp add: setDate_def)

text \<open>
  Claim C4: \<open>getDailyNoteName\<close> changes the date exactly when the flag is set and the hour
  of the wall clock is below the boundary hour; the date is then the day before (its day
  number is one less), and the name is the format of the date the call leaves. The hour
  of the date passed in plays no part: setting it to any \<open>k\<close> changes nothing but that
  field of the result. With the boundary hour 0 the date is never changed.
\<close>

theorem getDailyNoteName_boundary_rule:
  "(snd (getDailyNoteName rt h f d flag) \<noteq> d) = (flag \<and> int (hourNow rt) < h)
   \<and> snd (getDailyNoteName rt h f d flag) =
       (if flag \<and> int (hourNow rt) < h then setDate d (int (getDate d) - 1) else d)
   \<and> fst (getDailyNoteName rt h f d flag) =
       dayjsFormat rt f (snd (getDailyNoteName rt h f d flag))
   \<and> (validDate d \<longrightarrow>
        dayNumber (snd (getDailyNoteName rt h f d flag)) =
          dayNumber d - (if flag \<and> int (hourNow rt) < h then 1 else 0))
   \<and> snd (getDailyNoteName rt h f (d\<lparr>getHours := k\<rparr>) flag) =
       (snd (getDailyNoteName rt h f d flag))\<lparr>getHours := k\<rparr>
   \<and> getDailyNoteName rt 0 f d flag = (dayjsFormat rt f d, d)"
proof -
  have changed: "(snd (getDailyNoteName rt h f d flag) \<noteq> d) = (flag \<and> int (hourNow rt) < h)"
    using setDate_previous_changes [of d] by (simp add: getDailyNoteName_date)
  have days: "validDate d \<longrightarrow>
        dayNumber (snd (getDailyNoteName rt h f d flag)) =
          dayNumber d - (if flag \<and> int (hourNow rt) < h then 1 else 0)"
    by (simp add: getDailyNoteName_date setDate_previous_day)
  have hours: "snd (getDailyNoteName rt h f (d\<lparr>getHours := k\<rparr>) flag) =
       (snd (getDailyNoteName rt h f d flag))\<lparr>getHours := k\<rparr>"
    by (simp add: getDailyNoteName_date setDate_keeps_hours)
  have zero: "getDailyNoteName rt 0 f d flag = (dayjsFormat rt f d, d)"
    by (simp add: getDailyNoteName_def formatDate_def)
  show ?thesis
    using changed getDailyNoteName_date [of rt h f d flag]
      getDailyNoteName_name [of rt h f d flag] days hours zero
    by (intro conjI)
qed


text \<open>
  At one o'clock, with the boundary hour 5, the note of 1 March 2024 (a date whose own
  hour is 13) is named after 29 February.
\<close>

theorem getDailyNoteName_boundary_rule_witness:
  "validDate \<lparr>getFullYear = 2024, getMonth = 2, getDate = 1, getHours = 13, getMinutes = 30\<rparr>
   \<and> dayNumber (snd (getDailyNoteName (referenceHost 1) 5 ''YYYY-MM-DD''
         \<lparr>getFullYear = 2024, getMonth = 2, getDate = 1, getHours = 13, getMinutes = 30\<rparr> True))
       = dayNumber \<lparr>getFullYear = 2024, getMonth = 2, getDate = 1, getHours = 13, getMinutes = 30\<rparr> - 1
   \<and> getDailyNoteName (referenceHost 1) 5 ''YYYY-MM-DD''
         \<lparr>getFullYear = 2024, getMonth = 2, getDate = 1, getHours = 13, getMinutes = 30\<rparr> True
       = (''2024-02-29'',
          \<lparr>getFullYear = 2024, getMonth = 1, getDate = 29, getHours = 13, getMinutes = 30\<rparr>)"
proof -
  let ?d = "\<lparr>getFullYear = 2024, getMonth = 2, getDate = 1, getHours = 13, getMinutes = 30\<rparr>"
  have v: "validDate ?d" by code_simp
  have e: "getDailyNoteName (referenceHost 1) 5 ''YYYY-MM-DD'' ?d True
       = (''2024-02-29'',
          \<lparr>getFullYear = 2024, getMonth = 1, getDate = 29, getHours = 13, getMinutes = 30\<rparr>)"
    by code_simp
  have c: "int (hourNow (referenceHost 1)) < 5" by (simp add: referenceHost_def)
  from getDailyNoteName_boundary_rule [of "referenceHost 1" 5 "''YYYY-MM-DD''" ?d True 13]
  have "validDate ?d \<longrightarrow>
      dayNumber (snd (getDailyNoteName (referenceHost 1) 5 ''YYYY-MM-DD'' ?d True))
        = dayNumber ?d - (if True \<and> int (hourNow (referenceHost 1)) < 5 then 1 else 0)"
    by (elim conjE)
  with v c have "dayNumber (snd (getDailyNoteName (referenceHost 1) 5 ''YYYY-MM-DD'' ?d True))
       = dayNumber ?d - 1"
    by simp
  with v e show ?thesis by (intro conjI)
qed

text \<open>
  Claim C3 as amended: \<open>getDailyNotePath\<close> applies the boundary rule once, in the note name
  (the hour of the wall clock below the boundary hour). The month directory is computed
  with its flag off, from the date as the note name left it, whatever \<open>hour + 1 < boundary\<close>
  says; and the path is the month directory, a slash, the note name and \<open>.md\<close>.
\<close>

theorem getDailyNotePath_composition:
  "fst (getDailyNotePath rt root h f d) =
     fst (getMonthDirPath rt root h (snd (getDailyNoteName rt h f d True)) False) @ ''/''
       @ fst (getDailyNoteName rt h f d True) @ ''.md''
   \<and> snd (getMonthDirPath rt root h (snd (getDailyNoteName rt h f d True)) False) =
       snd (getDailyNoteName rt h f d True)
   \<and> getDailyNotePath rt root h f d =
       (let logical = (if int (hourNow rt) < h then setDate d (int (getDate d) - 1) else d)
        in (root @ ''/'' @ showInt (getFullYear logical) @ ''/''
              @ monthShort rt (getMonth logical) @ ''/'' @ dayjsFormat rt f logical @ ''.md'',
            logical))"
proof -
  have closed: "getDailyNotePath rt root h f d =
       (let logical = (if int (hourNow rt) < h then setDate d (int (getDate d) - 1) else d)
        in (root @ ''/'' @ showInt (getFullYear logical) @ ''/''
              @ monthShort rt (getMonth logical) @ ''/'' @ dayjsFormat rt f logical @ ''.md'',
            logical))"
    by (simp add: getDailyNotePath_def getDailyNoteName_def getMonthDirPath_def formatDate_def
        Let_def)
  show ?thesis
    using getDailyNotePath_path [of rt root h f d]
      getMonthDirPath_date [of rt root h "snd (getDailyNoteName rt h f d True)" False] closed
    by simp
qed

text \<open>
  Claim C3 as stated fails. At one o'clock with the boundary hour 5, for 2 March 2024:
  the code gives the directory of March, while the month-directory computation with
  the rule applied (to the date the note name left) gives February. At four o'clock, for
  1 March 2024: the code gives the directory of February, while the month-directory
  computation with the rule applied to the date passed in gives March.
\<close>

theorem getDailyNotePath_both_rules_counterexample:
  "fst (getDailyNotePath (referenceHost 1) ''root'' 5 ''YYYY-MM-DD''
         \<lparr>getFullYear = 2024, getMonth = 2, getDate = 2, getHours = 13, getMinutes = 30\<rparr>)
     \<noteq> fst (getMonthDirPath (referenceHost 1) ''root'' 5
              (snd (getDailyNoteName (referenceHost 1) 5 ''YYYY-MM-DD''
                 \<lparr>getFullYear = 2024, getMonth = 2, getDate = 2, getHours = 13, getMinutes = 30\<rparr>
                 True)) True)
         @ ''/''
         @ fst (getDailyNoteName (referenceHost 1) 5 ''YYYY-MM-DD''
                 \<lparr>getFullYear = 2024, getMonth = 2, getDate = 2, getHours = 13, getMinutes = 30\<rparr>
                 True)
         @ ''.md''
   \<and> fst (getDailyNotePath (referenceHost 1) ''root'' 5 ''YYYY-MM-DD''
         \<lparr>getFullYear = 2024, getMonth = 2, getDate = 2, getHours = 13, getMinutes = 30\<rparr>)
     = ''root/2024/Mar/2024-03-01.md''
   \<and> fst (getMonthDirPath (referenceHost 1) ''root'' 5
            (snd (getDailyNoteName (referenceHost 1) 5 ''YYYY-MM-DD''
               \<lparr>getFullYear = 2024, getMonth = 2, getDate = 2, getHours = 13, getMinutes = 30\<rparr>
               True)) True)
       = ''root/2024/Feb''
   \<and> fst (getDailyNotePath (referenceHost 4) ''root'' 5 ''YYYY-MM-DD''
         \<lparr>getFullYear = 2024, getMonth = 2, getDate = 1, getHours = 13, getMinutes = 30\<rparr>)
     = ''root/2024/Feb/2024-02-29.md''
   \<and> fst (getMonthDirPath (referenceHost 4) ''root'' 5
            \<lparr>getFullYear = 2024, getMonth = 2, getDate = 1, getHours = 13, getMinutes = 30\<rparr>
            True)
       = ''root/2024/Mar''"
proof -
  let ?d2 = "\<lparr>getFullYear = 2024, getMonth = 2, getDate = 2, getHours = 13, getMinutes = 30\<rparr>"
  let ?d1 = "\<lparr>getFullYear = 2024, getMonth = 2, getDate = 1, getHours = 13, getMinutes = 30\<rparr>"
  have code: "fst (getDailyNotePath (referenceHost 1) ''root'' 5 ''YYYY-MM-DD'' ?d2)
      = ''root/2024/Mar/2024-03-01.md''"
    by code_simp
  have dir: "fst (getMonthDirPath (referenceHost 1) ''root'' 5
      (snd (getDailyNoteName (referenceHost 1) 5 ''YYYY-MM-DD'' ?d2 True)) True) = ''root/2024/Feb''"
    by code_simp
  have name: "fst (getDailyNoteName (referenceHost 1) 5 ''YYYY-MM-DD'' ?d2 True) = ''2024-03-01''"
    by code_simp
  have code4: "fst (getDailyNotePath (referenceHost 4) ''root'' 5 ''YYYY-MM-DD'' ?d1)
      = ''root/2024/Feb/2024-02-29.md''"
    by code_simp
  have dir4: "fst (getMonthDirPath (referenceHost 4) ''root'' 5 ?d1 True) = ''root/2024/Mar''"
    by code_simp
  show ?thesis
    unfolding code dir name code4 dir4 by simp
qed

text \<open>
  Claim C5: whatever the hour of the wall clock and the boundary hour, the date a
  derivation leaves is the date passed in or the day before it, never an earlier one.
  This holds for \<open>getDailyNoteName\<close> and \<open>getMonthDirPath\<close> with either flag, and for
  \<open>getDailyNotePath\<close>, where one date passes through both: its day number falls by one
  at most, and the date it leaves exists.
\<close>

theorem logical_date_at_most_one_day_back:
  assumes "validDate d"
  shows "(dayNumber (snd (getDailyNotePath rt root h f d)) = dayNumber d
          \<or> dayNumber (snd (getDailyNotePath rt root h f d)) = dayNumber d - 1)
       \<and> (snd (getDailyNotePath rt root h f d) = d
          \<or> snd (getDailyNotePath rt root h f d) = setDate d (int (getDate d) - 1))
       \<and> validDate (snd (getDailyNotePath rt root h f d))
       \<and> (dayNumber (snd (getDailyNoteName rt h f d flag)) = dayNumber d
          \<or> dayNumber (snd (getDailyNoteName rt h f d flag)) = dayNumber d - 1)
       \<and> (dayNumber (snd (getMonthDirPath rt root h d flag)) = dayNumber d
          \<or> dayNumber (snd (getMonthDirPath rt root h d flag)) = dayNumber d - 1)"
  using assms setDate_previous_day [OF assms] setDate_previous_valid [OF assms]
  by (simp add: getDailyNotePath_date getDailyNoteName_date getMonthDirPath_date)

text \<open>
  At one o'clock with the boundary hour 5 both thresholds are passed (\<open>1 < 5\<close> and
  \<open>1 + 1 < 5\<close>); the path of 1 January 2024 is still that of 31 December 2023, one day
  back.
\<close>

theorem logical_date_at_most_one_day_back_witness:
  "validDate \<lparr>getFullYear = 2024, getMonth = 0, getDate = 1, getHours = 9, getMinutes = 0\<rparr>
   \<and> dayNumber (snd (getDailyNotePath (referenceHost 1) ''root'' 5 ''YYYY-MM-DD''
         \<lparr>getFullYear = 2024, getMonth = 0, getDate = 1, getHours = 9, getMinutes = 0\<rparr>))
       = dayNumber \<lparr>getFullYear = 2024, getMonth = 0, getDate = 1, getHours = 9, getMinutes = 0\<rparr> - 1
   \<and> getDailyNotePath (referenceHost 1) ''root'' 5 ''YYYY-MM-DD''
         \<lparr>getFullYear = 2024, getMonth = 0, getDate = 1, getHours = 9, getMinutes = 0\<rparr>
       = (''root/2023/Dec/2023-12-31.md'',
          \<lparr>getFullYear = 2023, getMonth = 11, getDate = 31, getHours = 9, getMinutes = 0\<rparr>)"
proof -
  let ?d = "\<lparr>getFullYear = 2024, getMonth = 0, getDate = 1, getHours = 9, getMinutes = 0\<rparr>"
  let ?r = "\<lparr>getFullYear = 2023, getMonth = 11, getDate = 31, getHours = 9, getMinutes = 0\<rparr>"
  have v: "validDate ?d" by code_simp
  have e: "getDailyNotePath (referenceHost 1) ''root'' 5 ''YYYY-MM-DD'' ?d
       = (''root/2023/Dec/2023-12-31.md'', ?r)"
    by code_simp
  have n: "dayNumber ?r \<noteq> dayNumber ?d" by code_simp
  from logical_date_at_most_one_day_back [OF v, of "referenceHost 1" "''root''" 5 "''YYYY-MM-DD''" True]
  have "dayNumber (snd (getDailyNotePath (referenceHost 1) ''root'' 5 ''YYYY-MM-DD'' ?d))
          = dayNumber ?d
        \<or> dayNumber (snd (getDailyNotePath (referenceHost 1) ''root'' 5 ''YYYY-MM-DD'' ?d))
          = dayNumber ?d - 1"
    by (elim conjE)
  with n have "dayNumber (snd (getDailyNotePath (referenceHost 1) ''root'' 5 ''YYYY-MM-DD'' ?d))
          = dayNumber ?d - 1"
    unfolding e by simp
  with v e show ?thesis by (intro conjI)
qed

section \<open>Properties of the file handling\<close>

text \<open>The four ways \<open>createAndInsertWithFileReader\<close> ends.\<close>

lemma createAndInsert_no_payload:
  assumes "readerBase64 r = None \<or> readerBase64 r = Some []"
  shows "createAndInsertWithFileReader h r p name flag w st =
     (False, notify st (''Failed to create file '' @ quoted p @ '', base64 is empty.'') None)"
  using assms by (auto simp: createAndInsertWithFileReader_def truthy_string_def Let_def)

lemma createAndInsert_exists:
  assumes "readerBase64 r = Some b" and "b \<noteq> []"
    and "getAbstractFileByPath (vault st) (stripLeadingSlash p) \<noteq> None" and "flag"
  shows "createAndInsertWithFileReader h r p name flag w st =
     (True,
      (notify st (''File '' @ quoted (stripLeadingSlash p)
                  @ '' already exists. Inserting link to the existed one.'') None)
        \<lparr>editor := replaceSelection (editor st) (fileLinkText p w)\<rparr>)"
  using assms by (simp add: createAndInsertWithFileReader_def truthy_string_def Let_def)

lemma createAndInsert_written:
  assumes "readerBase64 r = Some b" and "b \<noteq> []"
    and "getAbstractFileByPath (vault st) (stripLeadingSlash p) = None \<or> \<not> flag"
    and "createBinary h (vault st) (stripLeadingSlash p) (base64ToArrayBuffer h b) = Some v1"
  shows "createAndInsertWithFileReader h r p name flag w st =
     (True, st\<lparr>vault := v1, editor := replaceSelection (editor st) (fileLinkText p w)\<rparr>)"
  using assms by (auto simp: createAndInsertWithFileReader_def truthy_string_def Let_def)

lemma createAndInsert_write_failed:
  assumes "readerBase64 r = Some b" and "b \<noteq> []"
    and "getAbstractFileByPath (vault st) (stripLeadingSlash p) = None \<or> \<not> flag"
    and "createBinary h (vault st) (stripLeadingSlash p) (base64ToArrayBuffer h b) = None"
  shows "createAndInsertWithFileReader h r p name flag w st =
     (False,
      (notify st (''Failed to create file '' @ quoted name @ ''.'') (Some 0))
        \<lparr>editor := replaceSelection (editor st) (fileLinkText p w)\<rparr>)"
  using assms by (auto simp: createAndInsertWithFileReader_def truthy_string_def Let_def)

text \<open>A callback never starts or drops a read: it leaves \<open>pendingReads\<close> as it is.\<close>

lemma createAndInsert_pending:
  "pendingReads (snd (createAndInsertWithFileReader h r p name flag w st)) = pendingReads st"
  by (simp add: createAndInsertWithFileReader_def notify_def Let_def
      split: option.splits)

text \<open>\<open>handleSingleFile\<close> on a view that shows a file.\<close>

lemma handleSingleFile_result:
  assumes "view = Some mv" and "view_file mv = Some vf"
  shows "fst (handleSingleFile h cfg file view st) = True"
    and "editor (snd (handleSingleFile h cfg file view st)) = editor st"
    and "length (pendingReads (snd (handleSingleFile h cfg file view st))) =
           Suc (length (pendingReads st))"
  using assms
  by (simp_all add: handleSingleFile_def limitImageFileSize_def notify_def Let_def
      split_beta)

lemma handleEach_pending:
  assumes "view = Some mv" and "view_file mv = Some vf"
  shows "length (pendingReads (handleEach h cfg view files st)) =
           length (pendingReads st) + length files"
  using assms
  by (induction files arbitrary: st) (simp_all add: handleSingleFile_result)

lemma handleEach_editor:
  assumes "view = Some mv" and "view_file mv = Some vf"
  shows "editor (handleEach h cfg view files st) = editor st"
  using assms
  by (induction files arbitrary: st) (simp_all add: handleSingleFile_result)

text \<open>
  The callback of a read whose write fails. When the payload is there, the write is
  reached (nothing is stored at the path, or the caller did not ask to reuse what is) and
  \<open>createBinary\<close> throws, \<open>createAndInsertWithFileReader\<close> returns \<open>false\<close>, having put the link in
  place of the selection and shown the notice of the failure with duration 0; the vault
  and the reads still to end are as before. The reads of the other files of the batch
  end after it as they would have: running the callbacks goes on from that world. And
  the loop of \<open>handleFiles\<close> starts one read for each file of the batch, whatever the host
  does.
\<close>

lemma callback_write_failure:
  assumes payload: "readerBase64 r = Some b" "b \<noteq> []"
    and reached: "getAbstractFileByPath (vault st) (stripLeadingSlash p) = None \<or> \<not> flag"
    and throws: "createBinary h (vault st) (stripLeadingSlash p) (base64ToArrayBuffer h b) = None"
  shows "createAndInsertWithFileReader h r p name flag w st =
           (False,
            st\<lparr>notices := notices st @ [(''Failed to create file '' @ quoted name @ ''.'', Some 0)],
               editor := (editor st)\<lparr>textBefore := textBefore (editor st) @ fileLinkText p w,
                                      selectedText := []\<rparr>\<rparr>)
       \<and> vault (snd (createAndInsertWithFileReader h r p name flag w st)) = vault st
       \<and> pendingReads (snd (createAndInsertWithFileReader h r p name flag w st)) = pendingReads st
       \<and> (\<forall>file rest. flag \<and> readAsDataURL h file = r \<and> file_name file = name \<longrightarrow>
             runReads h (\<lparr>task_filePath = p, task_file = file, task_resizeWidth = w\<rparr> # rest) st =
             runReads h rest
               (st\<lparr>notices := notices st @ [(''Failed to create file '' @ quoted name @ ''.'', Some 0)],
                   editor := (editor st)\<lparr>textBefore := textBefore (editor st) @ fileLinkText p w,
                                          selectedText := []\<rparr>\<rparr>))
       \<and> (\<forall>cfg view mv vf files st0. view = Some mv \<and> view_file mv = Some vf \<longrightarrow>
             length (pendingReads (handleEach h cfg view files st0)) =
               length (pendingReads st0) + length files)"
proof -
  let ?st1 = "st\<lparr>notices := notices st @ [(''Failed to create file '' @ quoted name @ ''.'', Some 0)],
               editor := (editor st)\<lparr>textBefore := textBefore (editor st) @ fileLinkText p w,
                                      selectedText := []\<rparr>\<rparr>"
  have result: "createAndInsertWithFileReader h r p name flag w st = (False, ?st1)"
    using createAndInsert_write_failed [OF payload reached throws]
    by (simp add: notify_def replaceSelection_def)
  have batch: "runReads h (\<lparr>task_filePath = p, task_file = f, task_resizeWidth = w\<rparr> # rest) st =
      runReads h rest ?st1"
    if "flag \<and> readAsDataURL h f = r \<and> file_name f = name" for f rest
    using that result by (simp add: onloadend_def)
  have loop: "length (pendingReads (handleEach h cfg view files st0)) =
      length (pendingReads st0) + length files"
    if "view = Some mv \<and> view_file mv = Some vf" for cfg view mv vf files st0
    using that handleEach_pending [of view mv vf h cfg files st0] by simp
  show ?thesis
    unfolding result using batch loop by simp
qed

text \<open>
  Claim C2 says that for a file whose write fails the per-file handling inserts the
  link, shows the notice that stays, returns \<open>false\<close> for that file and lets the batch go
  on. The call \<open>handleFiles\<close> awaits for each file is \<open>handleSingleFile\<close>. On a vault that
  refuses every write, for the document \<open>b.pdf\<close> dropped on the example note, that call
  returns \<open>true\<close>; the \<open>false\<close> is the result of the callback of the read, which runs after
  the call has returned and whose result nothing reads. The rest of the claim holds
  there: dropped after the picture \<open>a.png\<close>, both files get their link and their notice
  of duration 0 once the reads have ended, and nothing is written.
\<close>

theorem handleSingleFile_true_although_write_fails:
  "fst (handleSingleFile (readOnlyHost 9) exampleSettings
          \<lparr>file_name = ''b.pdf'', file_type = ''application/pdf'', file_bytes = [4, 5]\<rparr>
          exampleView (freshWorld [])) = True
   \<and> (let st = snd (handleSingleFile (readOnlyHost 9) exampleSettings
                  \<lparr>file_name = ''b.pdf'', file_type = ''application/pdf'', file_bytes = [4, 5]\<rparr>
                  exampleView (freshWorld []))
        in map (\<lambda>task. fst (onloadend (readOnlyHost 9) task st)) (pendingReads st)) = [False]
   \<and> (let st = handleFiles (readOnlyHost 9)
                  (Some [\<lparr>file_name = ''a.png'', file_type = ''image/png'', file_bytes = [1, 2, 3]\<rparr>,
                         \<lparr>file_name = ''b.pdf'', file_type = ''application/pdf'',
                            file_bytes = [4, 5]\<rparr>])
                  exampleSettings exampleView (freshWorld []);
            final = runReads (readOnlyHost 9) (pendingReads st) st
        in (textBefore (editor final), map snd (notices final), getFiles (vault final)))
       = (''![[notes/2024/Jan/images/2024-01-15-image.png]]![[notes/2024/Jan/files/2024-01-15-b.pdf]]'',
          [Some 0, Some 0], [])"
proof -
  have returned: "fst (handleSingleFile (readOnlyHost 9) exampleSettings
          \<lparr>file_name = ''b.pdf'', file_type = ''application/pdf'', file_bytes = [4, 5]\<rparr>
          exampleView (freshWorld [])) = True"
    by code_simp
  have later: "(let st = snd (handleSingleFile (readOnlyHost 9) exampleSettings
                  \<lparr>file_name = ''b.pdf'', file_type = ''application/pdf'', file_bytes = [4, 5]\<rparr>
                  exampleView (freshWorld []))
        in map (\<lambda>task. fst (onloadend (readOnlyHost 9) task st)) (pendingReads st)) = [False]"
    by code_simp
  have batch: "(let st = handleFiles (readOnlyHost 9)
                  (Some [\<lparr>file_name = ''a.png'', file_type = ''image/png'', file_bytes = [1, 2, 3]\<rparr>,
                         \<lparr>file_name = ''b.pdf'', file_type = ''application/pdf'',
                            file_bytes = [4, 5]\<rparr>])
                  exampleSettings exampleView (freshWorld []);
            final = runReads (readOnlyHost 9) (pendingReads st) st
        in (textBefore (editor final), map snd (notices final), getFiles (vault final)))
       = (''![[notes/2024/Jan/images/2024-01-15-image.png]]![[notes/2024/Jan/files/2024-01-15-b.pdf]]'',
          [Some 0, Some 0], [])"
    by code_simp
  from returned later batch show ?thesis by (intro conjI)
qed

text \<open>
  Claim C6: when some file of the batch has a type that neither starts with \<open>image\<close> nor
  is \<open>application/zip\<close> or \<open>application/pdf\<close>, \<open>handleFiles\<close> leaves the vault and the
  editor as they are, starts no read (so nothing is written or inserted later either)
  and does not prevent the default of the event. Either nothing at all happens (a gate
  before the check refused the event), or the one change is a notice naming the
  type of a file of the batch.
\<close>

theorem handleFiles_rejects_whole_batch:
  assumes "f \<in> set files"
    and "\<not> startsWith (file_type f) ''image''"
    and "file_type f \<noteq> ''application/zip''"
    and "file_type f \<noteq> ''application/pdf''"
  shows "vault (handleFiles h (Some files) cfg view st) = vault st
       \<and> editor (handleFiles h (Some files) cfg view st) = editor st
       \<and> pendingReads (handleFiles h (Some files) cfg view st) = pendingReads st
       \<and> defaultPrevented (handleFiles h (Some files) cfg view st) = defaultPrevented st
       \<and> (handleFiles h (Some files) cfg view st = st
          \<or> (\<exists>g. g \<in> set files \<and>
                handleFiles h (Some files) cfg view st =
                  st\<lparr>notices := notices st @
                       [(''Only image, pdf, and zip files are supported. Get ''
                         @ file_type g @ '' instead.'', None)]\<rparr>))"
proof -
  have "\<exists>x\<in>set files. \<not> supportedType (file_type x)"
    using assms by (auto simp: supportedType_def)
  then obtain g where g: "find (\<lambda>f. \<not> supportedType (file_type f)) files = Some g"
    by (cases "find (\<lambda>f. \<not> supportedType (file_type f)) files") (auto simp: find_None_iff)
  then have mem: "g \<in> set files"
    by (auto simp: find_Some_iff)
  show ?thesis
  proof (cases "shouldHandleAccordingToConfig h cfg view \<and> files \<noteq> []")
    case True
    then have "handleFiles h (Some files) cfg view st =
        st\<lparr>notices := notices st @
             [(''Only image, pdf, and zip files are supported. Get ''
               @ file_type g @ '' instead.'', None)]\<rparr>"
      using g by (simp add: handleFiles_def notify_def)
    with mem show ?thesis by auto
  next
    case False
    then have "handleFiles h (Some files) cfg view st = st"
      by (auto simp: handleFiles_def)
    then show ?thesis by simp
  qed
qed

text \<open>A picture and a text file dropped together: only the notice appears.\<close>

theorem handleFiles_rejects_whole_batch_witness:
  "\<lparr>file_name = ''b.txt'', file_type = ''text/plain'', file_bytes = [4, 5]\<rparr>
     \<in> set [\<lparr>file_name = ''a.png'', file_type = ''image/png'', file_bytes = [1, 2, 3]\<rparr>,
             \<lparr>file_name = ''b.txt'', file_type = ''text/plain'', file_bytes = [4, 5]\<rparr>]
   \<and> vault (handleFiles (referenceHost 9)
        (Some [\<lparr>file_name = ''a.png'', file_type = ''image/png'', file_bytes = [1, 2, 3]\<rparr>,
               \<lparr>file_name = ''b.txt'', file_type = ''text/plain'', file_bytes = [4, 5]\<rparr>])
        exampleSettings exampleView (freshWorld [])) = []
   \<and> pendingReads (handleFiles (referenceHost 9)
        (Some [\<lparr>file_name = ''a.png'', file_type = ''image/png'', file_bytes = [1, 2, 3]\<rparr>,
               \<lparr>file_name = ''b.txt'', file_type = ''text/plain'', file_bytes = [4, 5]\<rparr>])
        exampleSettings exampleView (freshWorld [])) = []
   \<and> handleFiles (referenceHost 9)
        (Some [\<lparr>file_name = ''a.png'', file_type = ''image/png'', file_bytes = [1, 2, 3]\<rparr>,
               \<lparr>file_name = ''b.txt'', file_type = ''text/plain'', file_bytes = [4, 5]\<rparr>])
        exampleSettings exampleView (freshWorld [])
       = (freshWorld [])\<lparr>notices :=
            [(''Only image, pdf, and zip files are supported. Get text/plain instead.'', None)]\<rparr>"
proof -
  let ?a = "\<lparr>file_name = ''a.png'', file_type = ''image/png'', file_bytes = [1, 2, 3]\<rparr>"
  let ?b = "\<lparr>file_name = ''b.txt'', file_type = ''text/plain'', file_bytes = [4, 5]\<rparr>"
  have m: "?b \<in> set [?a, ?b]" by simp
  have t1: "\<not> startsWith (file_type ?b) ''image''" by code_simp
  have t2: "file_type ?b \<noteq> ''application/zip''" by simp
  have t3: "file_type ?b \<noteq> ''application/pdf''" by simp
  have run: "handleFiles (referenceHost 9) (Some [?a, ?b]) exampleSettings exampleView (freshWorld [])
       = (freshWorld [])\<lparr>notices :=
            [(''Only image, pdf, and zip files are supported. Get text/plain instead.'', None)]\<rparr>"
    by code_simp
  note rejected = handleFiles_rejects_whole_batch [OF m t1 t2 t3, of "referenceHost 9"
      exampleSettings exampleView "freshWorld []"]
  have "vault (handleFiles (referenceHost 9) (Some [?a, ?b]) exampleSettings exampleView
          (freshWorld [])) = vault (freshWorld [])"
    by (rule rejected [THEN conjunct1])
  moreover have "pendingReads (handleFiles (referenceHost 9) (Some [?a, ?b]) exampleSettings
          exampleView (freshWorld [])) = pendingReads (freshWorld [])"
    by (rule rejected [THEN conjunct2, THEN conjunct2, THEN conjunct1])
  ultimately show ?thesis using m run by (simp add: freshWorld_def)
qed

text \<open>
  Claim C8 as amended: when the read gave a payload that is not empty and something is
  stored at the target path (the path with a leading slash taken off), the callback,
  which passes \<open>true\<close> for \<open>returnTrueIfExists\<close>, writes nothing, shows the notice, puts the
  link in place of the selection and returns \<open>true\<close>.
\<close>

theorem existing_target_is_reused:
  assumes "readerBase64 r = Some b" and "b \<noteq> []"
    and "getAbstractFileByPath (vault st) (stripLeadingSlash p) \<noteq> None"
  shows "createAndInsertWithFileReader h r p name True w st =
           (True,
            st\<lparr>notices := notices st @
                  [(''File '' @ quoted (stripLeadingSlash p)
                    @ '' already exists. Inserting link to the existed one.'', None)],
               editor := (editor st)\<lparr>textBefore := textBefore (editor st) @ fileLinkText p w,
                                      selectedText := []\<rparr>\<rparr>)
       \<and> vault (snd (createAndInsertWithFileReader h r p name True w st)) = vault st
       \<and> onloadend h \<lparr>task_filePath = p, task_file = \<lparr>file_name = name, file_type = t,
                                                        file_bytes = bytes\<rparr>,
                        task_resizeWidth = w\<rparr> st =
           createAndInsertWithFileReader h
             (readAsDataURL h \<lparr>file_name = name, file_type = t, file_bytes = bytes\<rparr>)
             p name True w st"
proof -
  have "createAndInsertWithFileReader h r p name True w st =
           (True,
            st\<lparr>notices := notices st @
                  [(''File '' @ quoted (stripLeadingSlash p)
                    @ '' already exists. Inserting link to the existed one.'', None)],
               editor := (editor st)\<lparr>textBefore := textBefore (editor st) @ fileLinkText p w,
                                      selectedText := []\<rparr>\<rparr>)"
    using createAndInsert_exists [OF assms, of True h name w]
    by (simp add: notify_def replaceSelection_def)
  then show ?thesis by (simp add: onloadend_def)
qed

text \<open>A document dropped again on a note that already has it.\<close>

theorem existing_target_is_reused_witness:
  "readerBase64 (Some ''data:application/pdf;base64,Bw=='') = Some ''Bw==''
   \<and> getAbstractFileByPath (vault (freshWorld [(''notes/files/n-a.pdf'', TFile [7])]))
        (stripLeadingSlash ''notes/files/n-a.pdf'') \<noteq> None
   \<and> fst (createAndInsertWithFileReader (referenceHost 9)
            (Some ''data:application/pdf;base64,Bw=='') ''notes/files/n-a.pdf'' ''a.pdf'' True (- 1)
            (freshWorld [(''notes/files/n-a.pdf'', TFile [7])])) = True
   \<and> vault (snd (createAndInsertWithFileReader (referenceHost 9)
            (Some ''data:application/pdf;base64,Bw=='') ''notes/files/n-a.pdf'' ''a.pdf'' True (- 1)
            (freshWorld [(''notes/files/n-a.pdf'', TFile [7])])))
       = [(''notes/files/n-a.pdf'', TFile [7])]
   \<and> textBefore (editor (snd (createAndInsertWithFileReader (referenceHost 9)
            (Some ''data:application/pdf;base64,Bw=='') ''notes/files/n-a.pdf'' ''a.pdf'' True (- 1)
            (freshWorld [(''notes/files/n-a.pdf'', TFile [7])]))))
       = ''![[notes/files/n-a.pdf]]''"
proof -
  let ?r = "Some ''data:application/pdf;base64,Bw==''"
  let ?w = "freshWorld [(''notes/files/n-a.pdf'', TFile [7])]"
  have p1: "readerBase64 ?r = Some ''Bw==''" by code_simp
  have p2: "''Bw=='' \<noteq> []" by simp
  have p3: "getAbstractFileByPath (vault ?w) (stripLeadingSlash ''notes/files/n-a.pdf'') \<noteq> None"
    by code_simp
  have link: "fileLinkText ''notes/files/n-a.pdf'' (- 1) = ''![[notes/files/n-a.pdf]]''"
    by code_simp
  from existing_target_is_reused [OF p1 p2 p3, of "referenceHost 9" "''a.pdf''" "- 1"]
  have res: "createAndInsertWithFileReader (referenceHost 9) ?r ''notes/files/n-a.pdf'' ''a.pdf''
      True (- 1) ?w =
      (True,
       ?w\<lparr>notices := notices ?w @
             [(''File '' @ quoted (stripLeadingSlash ''notes/files/n-a.pdf'')
               @ '' already exists. Inserting link to the existed one.'', None)],
          editor := (editor ?w)\<lparr>textBefore := textBefore (editor ?w)
                                     @ fileLinkText ''notes/files/n-a.pdf'' (- 1),
                                   selectedText := []\<rparr>\<rparr>)"
    by (rule conjunct1)
  show ?thesis
    unfolding res using p1 p3 by (simp add: link freshWorld_def)
qed

text \<open>
  Claim C8 as stated fails for a file without bytes: its read gives the payload
  \<open>""\<close>, and the callback returns \<open>false\<close> after the notice that the base64 is empty. The
  target path is stored in the vault, yet no link is inserted.
\<close>

theorem existing_target_empty_file_counterexample:
  "getAbstractFileByPath (vault (freshWorld [(''notes/files/n-a.pdf'', TFile [7])]))
     ''notes/files/n-a.pdf'' = Some (TFile [7])
   \<and> readAsDataURL (referenceHost 9)
        \<lparr>file_name = ''a.pdf'', file_type = ''application/pdf'', file_bytes = []\<rparr>
       = Some ''data:application/pdf;base64,''
   \<and> onloadend (referenceHost 9)
        \<lparr>task_filePath = ''notes/files/n-a.pdf'',
          task_file = \<lparr>file_name = ''a.pdf'', file_type = ''application/pdf'', file_bytes = []\<rparr>,
          task_resizeWidth = - 1\<rparr>
        (freshWorld [(''notes/files/n-a.pdf'', TFile [7])])
       = (False,
          (freshWorld [(''notes/files/n-a.pdf'', TFile [7])])
            \<lparr>notices := [(''Failed to create file '' @ quoted ''notes/files/n-a.pdf''
                           @ '', base64 is empty.'', None)]\<rparr>)"
  by code_simp

text \<open>
  The path \<open>handleSingleFile\<close> computes for a file that is not an image: the base name of
  the note, a hyphen, the piece of the file's name before its first dot, a dot and the
  piece after its last dot, under the folder for other files. No count enters it.
\<close>

lemma handleSingleFile_other_file_path:
  assumes "view = Some mv" and "view_file mv = Some vf"
    and "\<not> startsWith (file_type file) ''image''"
  shows "pendingReads (snd (handleSingleFile h cfg file view st)) =
     pendingReads st @
       [\<lparr>task_filePath =
            normalizePath h
              (normalizePath h
                 ((case tfile_parent vf of None \<Rightarrow> [] | Some p \<Rightarrow> if p = ''/'' then [] else p)
                  @ ''/'' @ otherFilesSubDir cfg)
               @ ''/'' @ tfile_basename vf @ ''-'' @ firstPiece CHR ''.'' (file_name file)
               @ ''.'' @ lastPiece CHR ''.'' (file_name file)),
          task_file = file, task_resizeWidth = resizeWidth cfg\<rparr>]"
  using assms
  by (simp add: handleSingleFile_def Let_def split: option.splits)

text \<open>
  Claim C7 says the name is the note's base name, a hyphen, the dropped file's name
  without its extension, a dot and the extension. For \<open>my.report.pdf\<close> dropped on the
  note \<open>2024-01-15\<close> that is \<open>2024-01-15-my.report.pdf\<close>; the code computes
  \<open>2024-01-15-my.pdf\<close>: the name is cut at its first dot, the extension taken after its
  last. For a name without a dot, \<open>README\<close>, the code computes \<open>2024-01-15-README.README\<close>.
\<close>

theorem handleSingleFile_name_cut_at_first_dot:
  "map task_filePath (pendingReads (snd (handleSingleFile (referenceHost 9) exampleSettings
      \<lparr>file_name = ''my.report.pdf'', file_type = ''application/pdf'',
        file_bytes = [37, 80, 68, 70]\<rparr> exampleView (freshWorld []))))
     = [''notes/2024/Jan/files/2024-01-15-my.pdf'']
   \<and> map task_filePath (pendingReads (snd (handleSingleFile (referenceHost 9) exampleSettings
      \<lparr>file_name = ''README'', file_type = ''application/pdf'',
        file_bytes = [37, 80, 68, 70]\<rparr> exampleView (freshWorld []))))
     = [''notes/2024/Jan/files/2024-01-15-README.README'']"
  by code_simp



text \<open>
  Claim C10: for a path that begins with a slash, the link is built from the path as it
  was passed, slash included, while the lookup and the write use the path without that
  slash, which is a different path. Whichever way the call ends, the editor receives
  \<open>![[/...]]\<close>; the file is looked up at, and written to, the path without the slash.
\<close>

theorem link_keeps_the_leading_slash:
  assumes "readerBase64 r = Some b" and "b \<noteq> []"
  shows "stripLeadingSlash (CHR ''/'' # q) = q
       \<and> CHR ''/'' # q \<noteq> q
       \<and> fileLinkText (CHR ''/'' # q) w =
           ''![[/'' @ q @ (if w \<noteq> - 1 then ''|'' @ showInt w else []) @ '']]''
       \<and> createAndInsertWithFileReader h r (CHR ''/'' # q) name flag w st =
           (if getAbstractFileByPath (vault st) q \<noteq> None \<and> flag
            then (True,
                  st\<lparr>notices := notices st @
                        [(''File '' @ quoted q
                          @ '' already exists. Inserting link to the existed one.'', None)],
                     editor := (editor st)\<lparr>textBefore := textBefore (editor st)
                                               @ fileLinkText (CHR ''/'' # q) w,
                                            selectedText := []\<rparr>\<rparr>)
            else (case createBinary h (vault st) q (base64ToArrayBuffer h b) of
                    Some v1 \<Rightarrow>
                      (True,
                       st\<lparr>vault := v1,
                          editor := (editor st)\<lparr>textBefore := textBefore (editor st)
                                                    @ fileLinkText (CHR ''/'' # q) w,
                                                 selectedText := []\<rparr>\<rparr>)
                  | None \<Rightarrow>
                      (False,
                       st\<lparr>notices := notices st @
                             [(''Failed to create file '' @ quoted name @ ''.'', Some 0)],
                          editor := (editor st)\<lparr>textBefore := textBefore (editor st)
                                                    @ fileLinkText (CHR ''/'' # q) w,
                                                 selectedText := []\<rparr>\<rparr>)))"
proof -
  have strip: "stripLeadingSlash (CHR ''/'' # q) = q"
    by (simp add: stripLeadingSlash_def)
  have differ: "CHR ''/'' # q \<noteq> q"
    by simp
  have link: "fileLinkText (CHR ''/'' # q) w =
      ''![[/'' @ q @ (if w \<noteq> - 1 then ''|'' @ showInt w else []) @ '']]''"
    by (simp add: fileLinkText_def)
  have run: "createAndInsertWithFileReader h r (CHR ''/'' # q) name flag w st =
           (if getAbstractFileByPath (vault st) q \<noteq> None \<and> flag
            then (True,
                  st\<lparr>notices := notices st @
                        [(''File '' @ quoted q
                          @ '' already exists. Inserting link to the existed one.'', None)],
                     editor := (editor st)\<lparr>textBefore := textBefore (editor st)
                                               @ fileLinkText (CHR ''/'' # q) w,
                                            selectedText := []\<rparr>\<rparr>)
            else (case createBinary h (vault st) q (base64ToArrayBuffer h b) of
                    Some v1 \<Rightarrow>
                      (True,
                       st\<lparr>vault := v1,
                          editor := (editor st)\<lparr>textBefore := textBefore (editor st)
                                                    @ fileLinkText (CHR ''/'' # q) w,
                                                 selectedText := []\<rparr>\<rparr>)
                  | None \<Rightarrow>
                      (False,
                       st\<lparr>notices := notices st @
                             [(''Failed to create file '' @ quoted name @ ''.'', Some 0)],
                          editor := (editor st)\<lparr>textBefore := textBefore (editor st)
                                                    @ fileLinkText (CHR ''/'' # q) w,
                                                 selectedText := []\<rparr>\<rparr>)))"
    using assms
    by (simp add: createAndInsertWithFileReader_def strip truthy_string_def notify_def
        replaceSelection_def Let_def split: option.splits)
  from strip differ link run show ?thesis by (intro conjI)
qed

text \<open>
  A document of one byte for the path \<open>/notes/files/n-a.pdf\<close> and an empty vault: the file
  is stored at \<open>notes/files/n-a.pdf\<close>, and the editor receives
  \<open>![[/notes/files/n-a.pdf|300]]\<close>.
\<close>

theorem link_keeps_the_leading_slash_witness:
  "readerBase64 (Some ''data:application/pdf;base64,Bw=='') = Some ''Bw==''
   \<and> stripLeadingSlash ''/notes/files/n-a.pdf'' = ''notes/files/n-a.pdf''
   \<and> createAndInsertWithFileReader (referenceHost 9) (Some ''data:application/pdf;base64,Bw=='')
        ''/notes/files/n-a.pdf'' ''a.pdf'' True 300 (freshWorld [])
       = (True,
          (freshWorld [(''notes/files/n-a.pdf'', TFile [7])])
            \<lparr>editor := \<lparr>textBefore = ''![[/notes/files/n-a.pdf|300]]'', selectedText = [],
                         textAfter = []\<rparr>\<rparr>)"
proof -
  have p1: "readerBase64 (Some ''data:application/pdf;base64,Bw=='') = Some ''Bw==''"
    by code_simp
  have p2: "''Bw=='' \<noteq> []" by simp
  have strip: "stripLeadingSlash ''/notes/files/n-a.pdf'' = ''notes/files/n-a.pdf''"
    by (rule link_keeps_the_leading_slash [OF p1 p2, THEN conjunct1])
  have run: "createAndInsertWithFileReader (referenceHost 9)
        (Some ''data:application/pdf;base64,Bw=='')
        ''/notes/files/n-a.pdf'' ''a.pdf'' True 300 (freshWorld [])
       = (True,
          (freshWorld [(''notes/files/n-a.pdf'', TFile [7])])
            \<lparr>editor := \<lparr>textBefore = ''![[/notes/files/n-a.pdf|300]]'', selectedText = [],
                         textAfter = []\<rparr>\<rparr>)"
    by code_simp
  from p1 strip run show ?thesis by (intro conjI)
qed

end
